theory Spec2Isabelle
  imports Complex_Main "HOL-Library.AList"
begin

section \<open>Exceptions (errors.py)\<close>

text \<open>
  \<open>ErrorCode\<close> is a \<open>str\<close> enum: a code is its string value. An \<open>exn\<close> stands for an
  instance of a subclass of Python's \<open>Exception\<close>. \<open>ChimeraError cls msg code retryable\<close>
  is an instance of \<open>ChimeraError\<close> or of one of its subclasses (\<open>cls\<close> is the class
  name); \<open>PyException cls\<close> is an instance of any other exception class.
\<close>

type_synonym ErrorCode = string

definition DATA_SOURCE_UNAVAILABLE :: ErrorCode where
  "DATA_SOURCE_UNAVAILABLE = ''DATA_SOURCE_UNAVAILABLE''"

datatype exn =
  ChimeraError string string ErrorCode bool
| PyException string

fun is_ChimeraError :: "exn \<Rightarrow> bool" where
  "is_ChimeraError (ChimeraError cls msg code r) = True"
| "is_ChimeraError (PyException cls) = False"

fun retryable :: "exn \<Rightarrow> bool" where
  "retryable (ChimeraError cls msg code r) = r"
| "retryable (PyException cls) = False"

text \<open>
  \<open>DataSourceError(message, source, code, retryable)\<close>: the subclass constructor, with
  its defaults written out by the caller.
\<close>

definition DataSourceError :: "string \<Rightarrow> ErrorCode \<Rightarrow> bool \<Rightarrow> exn" where
  "DataSourceError msg code r = ChimeraError ''DataSourceError'' msg code r"

text \<open>
  A wrapped callable runs in a world \<open>'w\<close> (everything it can read or change, the clock
  included) and either returns a value or raises.
\<close>

type_synonym ('a, 'w) func = "'w \<Rightarrow> (exn + 'a) \<times> 'w"

section \<open>Circuit breaker (resilience.py)\<close>

datatype CircuitState = CLOSED | OPEN | HALF_OPEN

text \<open>
  Times are \<open>datetime\<close> values counted in microseconds; \<open>recovery_timeout\<close> is the
  value of \<open>timedelta(seconds=self.recovery_timeout)\<close> in microseconds.
  \<open>expected_exception\<close> is the test \<open>isinstance(e, self.expected_exception)\<close>.
\<close>

record CircuitBreaker =
  failure_threshold :: int
  recovery_timeout :: int
  expected_exception :: "exn \<Rightarrow> bool"
  name :: string
  state :: CircuitState
  failure_count :: int
  last_failure_time :: "int option"
  success_count :: int

definition CircuitBreaker_init :: "int \<Rightarrow> int \<Rightarrow> (exn \<Rightarrow> bool) \<Rightarrow> string option \<Rightarrow> CircuitBreaker" where
  "CircuitBreaker_init threshold timeout expected nm =
     \<lparr> failure_threshold = threshold, recovery_timeout = timeout,
       expected_exception = expected,
       name = (case nm of None \<Rightarrow> ''unnamed'' | Some n \<Rightarrow> (if n = [] then ''unnamed'' else n)),
       state = CLOSED, failure_count = 0, last_failure_time = None, success_count = 0 \<rparr>"

definition should_attempt_reset :: "int \<Rightarrow> CircuitBreaker \<Rightarrow> bool" where
  "should_attempt_reset now b =
     (if state b \<noteq> OPEN then False
      else case last_failure_time b of
             None \<Rightarrow> False
           | Some t \<Rightarrow> now - t \<ge> recovery_timeout b)"

definition on_success :: "CircuitBreaker \<Rightarrow> CircuitBreaker" where
  "on_success b =
     (if state b = HALF_OPEN then
        (let b1 = b\<lparr>success_count := success_count b + 1\<rparr>
         in if success_count b1 \<ge> 2 then b1\<lparr>state := CLOSED, failure_count := 0\<rparr> else b1)
      else b\<lparr>failure_count := 0\<rparr>)"

definition on_failure :: "int \<Rightarrow> CircuitBreaker \<Rightarrow> CircuitBreaker" where
  "on_failure now b =
     (let b1 = b\<lparr>failure_count := failure_count b + 1, last_failure_time := Some now\<rparr>
      in if state b1 = HALF_OPEN then b1\<lparr>state := OPEN\<rparr>
         else if failure_count b1 \<ge> failure_threshold b1 then b1\<lparr>state := OPEN\<rparr>
         else b1)"

definition circuit_open_error :: "CircuitBreaker \<Rightarrow> exn" where
  "circuit_open_error b =
     DataSourceError (''Circuit breaker '' @ [CHR 0x27] @ name b @ [CHR 0x27] @ '' is OPEN'')
       DATA_SOURCE_UNAVAILABLE True"

text \<open>
  \<open>CircuitBreaker.call\<close>. \<open>clock\<close> reads \<open>datetime.now()\<close> from the world: once
  before the wrapped function runs (in \<open>_should_attempt_reset\<close>) and once after it has
  raised (in \<open>_on_failure\<close>). An exception that is not an instance of
  \<open>expected_exception\<close> passes through and leaves the breaker as it is.
\<close>

definition call :: "('w \<Rightarrow> int) \<Rightarrow> ('a, 'w) func \<Rightarrow> CircuitBreaker \<Rightarrow> 'w
    \<Rightarrow> (exn + 'a) \<times> CircuitBreaker \<times> 'w" where
  "call clock func b w =
     (let b1 = (if should_attempt_reset (clock w) b
                then b\<lparr>state := HALF_OPEN, success_count := 0\<rparr> else b)
      in if state b1 = OPEN then (Inl (circuit_open_error b1), b1, w)
         else case func w of
                (Inr result, w') \<Rightarrow> (Inr result, on_success b1, w')
              | (Inl e, w') \<Rightarrow>
                  if expected_exception b1 e then (Inl e, on_failure (clock w') b1, w')
                  else (Inl e, b1, w'))"

definition reset :: "CircuitBreaker \<Rightarrow> CircuitBreaker" where
  "reset b = b\<lparr>state := CLOSED, failure_count := 0, success_count := 0, last_failure_time := None\<rparr>"

text \<open>
  A series of calls through one breaker. Each call comes with the world it is made in:
  between two calls the world (the clock with it) moves on by itself.
\<close>

fun call_all :: "('w \<Rightarrow> int) \<Rightarrow> CircuitBreaker \<Rightarrow> (('a, 'w) func \<times> 'w) list
    \<Rightarrow> ((exn + 'a) \<times> 'w) list \<times> CircuitBreaker" where
  "call_all clock b [] = ([], b)"
| "call_all clock b ((func, w) # cs) =
     (case call clock func b w of
        (r, b', w') \<Rightarrow> (case call_all clock b' cs of (rs, b'') \<Rightarrow> ((r, w') # rs, b'')))"

section \<open>Retry (resilience.py)\<close>

datatype RetryStrategy = EXPONENTIAL | LINEAR | CONSTANT

text \<open>
  Delays are Python floats, modelled as reals: rounding and overflow of the floating-point
  operations are left out. \<open>uniform a b u\<close> is \<open>random.uniform(a, b)\<close> of the standard
  library, \<open>a + (b - a) * random()\<close>, with \<open>u\<close> the value drawn by \<open>random()\<close>.
\<close>

definition uniform :: "real \<Rightarrow> real \<Rightarrow> real \<Rightarrow> real" where
  "uniform a b u = a + (b - a) * u"

definition exponential_backoff :: "nat \<Rightarrow> real \<Rightarrow> real \<Rightarrow> bool \<Rightarrow> real \<Rightarrow> real" where
  "exponential_backoff attempt base_delay max_delay jitter u =
     (let delay = min (base_delay * 2 ^ attempt) max_delay;
          delay = (if jitter
                   then (let jitter_amount = delay * 0.25
                         in delay + uniform (- jitter_amount) jitter_amount u)
                   else delay)
      in max 0 delay)"

definition linear_backoff :: "nat \<Rightarrow> real \<Rightarrow> real \<Rightarrow> real" where
  "linear_backoff attempt base_delay max_delay = min (base_delay * (real attempt + 1)) max_delay"

definition constant_backoff :: "real \<Rightarrow> real" where
  "constant_backoff delay = delay"

text \<open>
  \<open>retryable_exceptions\<close> is a tuple of exception classes; each class is given by its
  \<open>isinstance\<close> test, and \<open>Exception\<close> itself is the test that accepts every \<open>exn\<close>.
\<close>

record RetryConfig =
  max_attempts :: int
  strategy :: RetryStrategy
  base_delay :: real
  max_delay :: real
  jitter :: bool
  retryable_exceptions :: "(exn \<Rightarrow> bool) list"

definition RetryConfig_init :: "int \<Rightarrow> RetryStrategy \<Rightarrow> real \<Rightarrow> real \<Rightarrow> bool
    \<Rightarrow> (exn \<Rightarrow> bool) list option \<Rightarrow> RetryConfig" where
  "RetryConfig_init ma st bd md jt exs =
     \<lparr> max_attempts = ma, strategy = st, base_delay = bd, max_delay = md, jitter = jt,
       retryable_exceptions =
         (case exs of None \<Rightarrow> [\<lambda>e. True] | Some cs \<Rightarrow> (if cs = [] then [\<lambda>e. True] else cs)) \<rparr>"

definition get_delay :: "RetryConfig \<Rightarrow> nat \<Rightarrow> real \<Rightarrow> real" where
  "get_delay config attempt u =
     (if strategy config = EXPONENTIAL
      then exponential_backoff attempt (base_delay config) (max_delay config) (jitter config) u
      else if strategy config = LINEAR
      then linear_backoff attempt (base_delay config) (max_delay config)
      else constant_backoff (base_delay config))"

definition caught :: "RetryConfig \<Rightarrow> exn \<Rightarrow> bool" where
  "caught config e = list_ex (\<lambda>cls. cls e) (retryable_exceptions config)"

text \<open>
  What a run of a wrapper does, in order: each invocation of the wrapped function with
  its outcome, and each call of the sleep primitive that returned, with the delay it was
  given.
\<close>

datatype 'a event = Attempt "exn + 'a" | Sleep real

text \<open>
  The \<open>for attempt in range(config.max_attempts)\<close> loop of \<open>sync_wrapper\<close> and of
  \<open>async_wrapper\<close>, from the iteration \<open>attempt\<close> on. The two wrappers are the same
  loop but for the sleep primitive: \<open>blocking\<close> is true in \<open>sync_wrapper\<close>, whose
  \<open>time.sleep\<close> raises \<open>ValueError\<close> on a negative delay, and false in
  \<open>async_wrapper\<close>, whose \<open>asyncio.sleep\<close> accepts a negative delay and returns at
  once. \<open>last_exception\<close> is \<open>None\<close> until an attempt has failed. \<open>sleep d w\<close> is the
  world after the sleep primitive was called with the delay \<open>d\<close>. \<open>rnd i\<close> is the value
  \<open>random()\<close> returns when the delay after attempt \<open>i\<close> is computed. After the loop,
  \<open>raise last_exception\<close> raises \<open>TypeError\<close> when \<open>last_exception\<close> is still
  \<open>None\<close>.
\<close>

function retry_loop :: "bool \<Rightarrow> RetryConfig \<Rightarrow> (real \<Rightarrow> 'w \<Rightarrow> 'w) \<Rightarrow> (nat \<Rightarrow> real) \<Rightarrow> ('a, 'w) func
    \<Rightarrow> nat \<Rightarrow> exn option \<Rightarrow> 'w \<Rightarrow> (exn + 'a) \<times> 'w \<times> 'a event list" where
  "retry_loop blocking config sleep rnd func attempt last_exception w =
     (if int attempt < max_attempts config then
        (case func w of
           (Inr result, w') \<Rightarrow> (Inr result, w', [Attempt (Inr result)])
         | (Inl e, w') \<Rightarrow>
             if \<not> caught config e then (Inl e, w', [Attempt (Inl e)])
             else if is_ChimeraError e \<and> \<not> retryable e then (Inl e, w', [Attempt (Inl e)])
             else if int attempt < max_attempts config - 1 then
               (let delay = get_delay config attempt (rnd attempt)
                in if blocking \<and> delay < 0
                   then (Inl (PyException ''ValueError''), w', [Attempt (Inl e)])
                   else (case retry_loop blocking config sleep rnd func (Suc attempt) (Some e) (sleep delay w') of
                           (r, w'', tr) \<Rightarrow> (r, w'', Attempt (Inl e) # Sleep delay # tr)))
             else (case retry_loop blocking config sleep rnd func (Suc attempt) (Some e) w' of
                     (r, w'', tr) \<Rightarrow> (r, w'', Attempt (Inl e) # tr)))
      else (case last_exception of
              None \<Rightarrow> (Inl (PyException ''TypeError''), w, [])
            | Some e \<Rightarrow> (Inl e, w, [])))"
  by pat_completeness auto
termination
  by (relation "measure (\<lambda>(blocking, config, sleep, rnd, func, attempt, last_exception, w).
        nat (max_attempts config - int attempt))") auto

definition sync_wrapper :: "RetryConfig \<Rightarrow> (real \<Rightarrow> 'w \<Rightarrow> 'w) \<Rightarrow> (nat \<Rightarrow> real) \<Rightarrow> ('a, 'w) func
    \<Rightarrow> 'w \<Rightarrow> (exn + 'a) \<times> 'w \<times> 'a event list" where
  "sync_wrapper config sleep rnd func w = retry_loop True config sleep rnd func 0 None w"

definition async_wrapper :: "RetryConfig \<Rightarrow> (real \<Rightarrow> 'w \<Rightarrow> 'w) \<Rightarrow> (nat \<Rightarrow> real) \<Rightarrow> ('a, 'w) func
    \<Rightarrow> 'w \<Rightarrow> (exn + 'a) \<times> 'w \<times> 'a event list" where
  "async_wrapper config sleep rnd func w = retry_loop False config sleep rnd func 0 None w"

text \<open>
  \<open>decorator(func)\<close> returns \<open>async_wrapper\<close> when
  \<open>asyncio.iscoroutinefunction(func)\<close> holds and \<open>sync_wrapper\<close> otherwise;
  \<open>iscoroutinefunction\<close> is the outcome of that test for the wrapped function.
\<close>

definition decorator :: "RetryConfig \<Rightarrow> bool \<Rightarrow> (real \<Rightarrow> 'w \<Rightarrow> 'w) \<Rightarrow> (nat \<Rightarrow> real)
    \<Rightarrow> ('a, 'w) func \<Rightarrow> 'w \<Rightarrow> (exn + 'a) \<times> 'w \<times> 'a event list" where
  "decorator config iscoroutinefunction =
     (if iscoroutinefunction then async_wrapper config else sync_wrapper config)"


declare retry_loop.simps [simp del]




section \<open>Subscriber (messaging/subscriber.py, messaging/base_agent.py)\<close>

text \<open>
  The channel is the broker client's: \<open>basic_ack\<close> and \<open>basic_nack\<close> are modelled by the
  frames they send, in order; a channel that fails to send is outside the model.
\<close>

datatype frame = Ack int | Nack int bool

definition basic_ack :: "int \<Rightarrow> frame list \<Rightarrow> frame list" where
  "basic_ack delivery_tag channel = channel @ [Ack delivery_tag]"

definition basic_nack :: "int \<Rightarrow> bool \<Rightarrow> frame list \<Rightarrow> frame list" where
  "basic_nack delivery_tag requeue channel = channel @ [Nack delivery_tag requeue]"

text \<open>
  \<open>method\<close> (\<open>Basic.Deliver\<close>) and \<open>properties\<close> (\<open>BasicProperties\<close>) of a delivery, and
  the dictionary \<open>msg_properties\<close> built from them (its keys carry the prefix \<open>mp_\<close>).
\<close>

record Deliver =
  routing_key :: string
  delivery_tag :: int

record BasicProperties =
  correlation_id :: "string option"
  app_id :: "string option"

record MsgProperties =
  mp_routing_key :: string
  mp_correlation_id :: "string option"
  mp_delivery_tag :: int
  mp_app_id :: "string option"

text \<open>
  \<open>BaseAgent.get_message_class\<close>: \<open>message_map\<close> is the result of
  \<open>get_routing_key_map()\<close>; a routing key without a class raises \<open>ValueError\<close>.
\<close>

definition get_message_class :: "(string \<rightharpoonup> 'c) \<Rightarrow> string \<Rightarrow> exn + 'c" where
  "get_message_class message_map rk =
     (case message_map rk of
        None \<Rightarrow> Inl (PyException ''ValueError'')
      | Some message_class \<Rightarrow> Inr message_class)"

text \<open>
  \<open>deserialize_message\<close>: \<open>ParseFromString\<close> is the Protocol Buffers parser of the
  message class, which returns the message or raises.
\<close>

definition deserialize_message :: "('c \<Rightarrow> string \<Rightarrow> exn + 'm) \<Rightarrow> string \<Rightarrow> 'c \<Rightarrow> exn + 'm" where
  "deserialize_message ParseFromString data message_class = ParseFromString message_class data"

text \<open>
  The \<open>try\<close> block of \<open>EventSubscriber._on_message\<close>, up to and including
  \<open>basic_ack\<close>; \<open>handle_message\<close> is the subclass's handler, which runs in the world and
  returns or raises.
\<close>

definition on_message_try :: "(string \<rightharpoonup> 'c) \<Rightarrow> ('c \<Rightarrow> string \<Rightarrow> exn + 'm)
    \<Rightarrow> ('m \<Rightarrow> MsgProperties \<Rightarrow> (unit, 'w) func)
    \<Rightarrow> frame list \<Rightarrow> Deliver \<Rightarrow> BasicProperties \<Rightarrow> string \<Rightarrow> 'w
    \<Rightarrow> (exn + unit) \<times> frame list \<times> 'w" where
  "on_message_try message_map ParseFromString handle_message channel method properties body w =
     (let msg_properties =
            \<lparr> mp_routing_key = routing_key method, mp_correlation_id = correlation_id properties,
              mp_delivery_tag = delivery_tag method, mp_app_id = app_id properties \<rparr>
      in case get_message_class message_map (routing_key method) of
           Inl e \<Rightarrow> (Inl e, channel, w)
         | Inr message_class \<Rightarrow>
             (case deserialize_message ParseFromString body message_class of
                Inl e \<Rightarrow> (Inl e, channel, w)
              | Inr message \<Rightarrow>
                  (case handle_message message msg_properties w of
                     (Inl e, w') \<Rightarrow> (Inl e, channel, w')
                   | (Inr u, w') \<Rightarrow> (Inr (), basic_ack (delivery_tag method) channel, w'))))"

text \<open>\<open>_on_message\<close>: the \<open>try\<close> block, and \<open>basic_nack\<close> in the \<open>except Exception\<close> handler.\<close>

definition on_message :: "(string \<rightharpoonup> 'c) \<Rightarrow> ('c \<Rightarrow> string \<Rightarrow> exn + 'm)
    \<Rightarrow> ('m \<Rightarrow> MsgProperties \<Rightarrow> (unit, 'w) func)
    \<Rightarrow> frame list \<Rightarrow> Deliver \<Rightarrow> BasicProperties \<Rightarrow> string \<Rightarrow> 'w
    \<Rightarrow> frame list \<times> 'w" where
  "on_message message_map ParseFromString handle_message channel method properties body w =
     (case on_message_try message_map ParseFromString handle_message channel method properties body w of
        (Inr u, channel', w') \<Rightarrow> (channel', w')
      | (Inl e, channel', w') \<Rightarrow> (basic_nack (delivery_tag method) False channel', w'))"

text \<open>
  Handling succeeds when the routing key has a class, the body parses and the handler
  returns.
\<close>

definition handling_succeeds :: "(string \<rightharpoonup> 'c) \<Rightarrow> ('c \<Rightarrow> string \<Rightarrow> exn + 'm)
    \<Rightarrow> ('m \<Rightarrow> MsgProperties \<Rightarrow> (unit, 'w) func)
    \<Rightarrow> Deliver \<Rightarrow> BasicProperties \<Rightarrow> string \<Rightarrow> 'w \<Rightarrow> bool" where
  "handling_succeeds message_map ParseFromString handle_message method properties body w =
     (case message_map (routing_key method) of
        None \<Rightarrow> False
      | Some message_class \<Rightarrow>
          (case ParseFromString message_class body of
             Inl e \<Rightarrow> False
           | Inr message \<Rightarrow>
               (case fst (handle_message message
                      \<lparr> mp_routing_key = routing_key method, mp_correlation_id = correlation_id properties,
                        mp_delivery_tag = delivery_tag method, mp_app_id = app_id properties \<rparr> w) of
                  Inl e \<Rightarrow> False
                | Inr u \<Rightarrow> True)))"

section \<open>Correlation tracking (messaging/base_agent.py)\<close>

text \<open>
  An entry of \<open>_correlation_map\<close> is a dictionary (its key \<open>context\<close> is the field
  \<open>context_data\<close>); \<open>timestamp\<close> is optional because
  \<open>cleanup_old_correlations\<close> reads it with \<open>data.get("timestamp", 0)\<close>. Timestamps are
  milliseconds. The map is a Python \<open>dict\<close>: an association list with distinct keys, in
  insertion order.
\<close>

record 'v CorrelationEntry =
  request_routing_key :: string
  reply_routing_key :: string
  context_data :: "(string \<times> 'v) list"
  timestamp :: "int option"

type_synonym 'v correlation_map = "(string \<times> 'v CorrelationEntry) list"



definition get_correlation_context :: "string \<Rightarrow> 'v correlation_map \<Rightarrow> 'v CorrelationEntry option" where
  "get_correlation_context cid cmap = map_of cmap cid"


definition entry_timestamp :: "'v CorrelationEntry \<Rightarrow> int" where
  "entry_timestamp data = (case timestamp data of None \<Rightarrow> 0 | Some t \<Rightarrow> t)"

text \<open>
  \<open>cleanup_old_correlations\<close> returns the number of identifiers it deleted. The
  identifiers come from the map itself, so no \<open>del\<close> can raise \<open>KeyError\<close>.
\<close>

definition cleanup_old_correlations :: "('w \<Rightarrow> int) \<Rightarrow> int \<Rightarrow> 'v correlation_map \<Rightarrow> 'w
    \<Rightarrow> int \<times> 'v correlation_map" where
  "cleanup_old_correlations get_timestamp max_age_seconds cmap w =
     (let current_time = get_timestamp w;
          cutoff_time = current_time - max_age_seconds * 1000;
          old_ids = map fst (filter (\<lambda>(cid, data). entry_timestamp data < cutoff_time) cmap);
          cmap1 = fold AList.delete old_ids cmap
      in (int (length old_ids), cmap1))"





section \<open>Alert engine (monitoring/alert_engine.py)\<close>

text \<open>
  The dataclasses of the module. Values and thresholds are Python floats, modelled as
  reals. Field names that another record of this theory already uses carry the name of
  their class: \<open>rule_ident\<close> and \<open>rule_name\<close> are \<open>AlertRule.id\<close> and \<open>AlertRule.name\<close>;
  \<open>alert_timestamp\<close>, \<open>alert_metric\<close>, \<open>alert_threshold\<close> and \<open>alert_context\<close> are the
  fields \<open>timestamp\<close>, \<open>metric\<close>, \<open>threshold\<close> and \<open>context\<close> of \<open>Alert\<close>.
\<close>

record AlertCondition =
  metric :: string
  operator :: string
  threshold :: real
  duration_seconds :: int
  cooldown_seconds :: int

record AlertRule =
  rule_ident :: string
  rule_name :: string
  condition :: AlertCondition
  notification_channels :: "string list"
  enabled :: bool

record Alert =
  rule_id :: string
  alert_timestamp :: int
  alert_metric :: string
  current_value :: real
  alert_threshold :: real
  severity :: string
  alert_context :: "(string \<times> string) list"
  suggested_actions :: "string list"

text \<open>
  The three dictionaries of the engine, as association lists in insertion order;
  \<open>last_alert_time\<close> holds \<open>datetime\<close> values in microseconds.
\<close>

record AlertEngine =
  rules :: "(string \<times> AlertRule) list"
  alert_history :: "(string \<times> Alert list) list"
  last_alert_time :: "(string \<times> int) list"

definition AlertEngine_init :: AlertEngine where
  "AlertEngine_init = \<lparr> rules = [], alert_history = [], last_alert_time = [] \<rparr>"

definition add_rule :: "AlertRule \<Rightarrow> AlertEngine \<Rightarrow> AlertEngine" where
  "add_rule rule eng =
     eng\<lparr> rules := AList.update (rule_ident rule) rule (rules eng),
          alert_history := AList.update (rule_ident rule) [] (alert_history eng) \<rparr>"

definition remove_rule :: "string \<Rightarrow> AlertEngine \<Rightarrow> AlertEngine" where
  "remove_rule rid eng =
     (if rid \<in> fst ` set (rules eng)
      then eng\<lparr> rules := AList.delete rid (rules eng),
                alert_history := AList.delete rid (alert_history eng) \<rparr>
      else eng)"

definition check_condition :: "real \<Rightarrow> string \<Rightarrow> real \<Rightarrow> bool" where
  "check_condition v op thr =
     (if op = ''>'' then v > thr
      else if op = ''<'' then v < thr
      else if op = ''>='' then v \<ge> thr
      else if op = ''<='' then v \<le> thr
      else if op = ''=='' then \<bar>v - thr\<bar> < 0.01
      else False)"

definition calculate_severity :: "real \<Rightarrow> AlertCondition \<Rightarrow> string" where
  "calculate_severity v cond =
     (let deviation = (if threshold cond > 0 then \<bar>v - threshold cond\<bar> / threshold cond else 0)
      in if deviation > 0.5 then ''critical''
         else if deviation > 0.2 then ''high''
         else if deviation > 0.1 then ''medium''
         else ''low'')"

definition suggest_actions :: "string \<Rightarrow> real \<Rightarrow> string list" where
  "suggest_actions m v =
     [''Review '' @ m @ '' data for anomalies'', ''Check related metrics for correlation'']"

text \<open>
  The alert that \<open>evaluate\<close> builds for a rule. Its timestamp is
  \<open>int((timestamp or current_time.timestamp()) * 1000)\<close>: the given timestamp, when it is
  given and not 0, and otherwise the current time, in milliseconds.
\<close>

definition make_alert :: "string \<Rightarrow> AlertRule \<Rightarrow> string \<Rightarrow> real \<Rightarrow> int option \<Rightarrow> int \<Rightarrow> Alert" where
  "make_alert rid rule m v ts current_time =
     \<lparr> rule_id = rid,
       alert_timestamp =
         (case ts of
            None \<Rightarrow> current_time div 1000
          | Some t \<Rightarrow> if t = 0 then current_time div 1000 else t * 1000),
       alert_metric = m,
       current_value = v,
       alert_threshold = threshold (condition rule),
       severity = calculate_severity v (condition rule),
       alert_context = [(''rule_name'', rule_name rule)],
       suggested_actions = suggest_actions m v \<rparr>"

text \<open>
  The loop of \<open>evaluate\<close> over \<open>self.rules.items()\<close>, with the alerts collected so far.
  \<open>self.alert_history[rule_id]\<close> raises \<open>KeyError\<close> when the rule has no history list.
\<close>

fun evaluate_rules :: "string \<Rightarrow> real \<Rightarrow> int option \<Rightarrow> int \<Rightarrow> (string \<times> AlertRule) list
    \<Rightarrow> Alert list \<Rightarrow> AlertEngine \<Rightarrow> (exn + Alert list) \<times> AlertEngine" where
  "evaluate_rules m v ts current_time [] alerts eng = (Inr alerts, eng)"
| "evaluate_rules m v ts current_time ((rid, rule) # rest) alerts eng =
     (if \<not> enabled rule then evaluate_rules m v ts current_time rest alerts eng
      else if metric (condition rule) \<noteq> m then evaluate_rules m v ts current_time rest alerts eng
      else if check_condition v (operator (condition rule)) (threshold (condition rule)) then
        (if (case map_of (last_alert_time eng) rid of
               None \<Rightarrow> False
             | Some last_alert \<Rightarrow>
                 current_time - last_alert < cooldown_seconds (condition rule) * 1000000)
         then evaluate_rules m v ts current_time rest alerts eng
         else (let alert = make_alert rid rule m v ts current_time
               in case map_of (alert_history eng) rid of
                    None \<Rightarrow> (Inl (PyException ''KeyError''), eng)
                  | Some history \<Rightarrow>
                      evaluate_rules m v ts current_time rest (alerts @ [alert])
                        (eng\<lparr> alert_history := AList.update rid (history @ [alert]) (alert_history eng),
                              last_alert_time := AList.update rid current_time (last_alert_time eng) \<rparr>)))
      else evaluate_rules m v ts current_time rest alerts eng)"

definition evaluate :: "string \<Rightarrow> real \<Rightarrow> int option \<Rightarrow> int \<Rightarrow> AlertEngine
    \<Rightarrow> (exn + Alert list) \<times> AlertEngine" where
  "evaluate m v ts current_time eng = evaluate_rules m v ts current_time (rules eng) [] eng"

text \<open>
  The severity as the specification words it, to be compared with \<open>calculate_severity\<close>:
  the bands of the relative deviation of the value from the threshold.
\<close>

definition relative_deviation :: "real \<Rightarrow> real \<Rightarrow> real" where
  "relative_deviation v thr = \<bar>v - thr\<bar> / \<bar>thr\<bar>"

definition spec_severity :: "real \<Rightarrow> real \<Rightarrow> string" where
  "spec_severity v thr =
     (if relative_deviation v thr > 0.5 then ''critical''
      else if relative_deviation v thr > 0.2 then ''high''
      else if relative_deviation v thr > 0.1 then ''medium''
      else ''low'')"

section \<open>Session context (query/context_manager.py)\<close>

text \<open>
  The stored context is JSON. An entity is a dictionary read with
  \<open>get('entity_type')\<close> and \<open>get('value')\<close> (\<open>None\<close> when the key is missing); its other
  keys are \<open>entity_rest\<close>. A history entry has the keys \<open>query\<close>, \<open>timestamp\<close>,
  \<open>intent\<close> and \<open>entities\<close>, the last two read with a default; an intent is read with
  \<open>get("time_range")\<close> and \<open>get("metrics", [])\<close>. Values are given by their strings.
\<close>

record Entity =
  entity_type :: "string option"
  entity_value :: "string option"
  entity_rest :: "(string \<times> string) list"

record Intent =
  time_range :: "(string \<times> int) list option"
  metrics :: "string list option"

record QueryEntry =
  query :: string
  query_timestamp :: string
  intent :: "Intent option"
  entities :: "Entity list option"

record SessionContext =
  session_id :: string
  created_at :: string
  query_history :: "QueryEntry list option"

record ExtractedContext =
  last_query :: "QueryEntry option"
  recent_entities :: "Entity list"
  time_range_context :: "(string \<times> int) list option"
  metric_context :: "string list"
  query_count :: nat

text \<open>\<open>str(x)\<close> inside an f-string, for a string or \<open>None\<close>.\<close>

definition py_str :: "string option \<Rightarrow> string" where
  "py_str x = (case x of None \<Rightarrow> ''None'' | Some s \<Rightarrow> s)"

definition entity_key :: "Entity \<Rightarrow> string" where
  "entity_key entity = py_str (entity_type entity) @ '':'' @ py_str (entity_value entity)"

text \<open>\<open>history[-n:]\<close> for a positive \<open>n\<close>.\<close>

definition last_n :: "nat \<Rightarrow> 'a list \<Rightarrow> 'a list" where
  "last_n n xs = drop (length xs - n) xs"

text \<open>
  One step of the inner loop of \<open>_extract_common_entities\<close>: the two dictionaries
  \<open>entity_counts\<close> and \<open>entity_data\<close> after one more entity.
\<close>

definition count_entity :: "Entity \<Rightarrow> (string \<times> nat) list \<times> (string \<times> Entity) list
    \<Rightarrow> (string \<times> nat) list \<times> (string \<times> Entity) list" where
  "count_entity entity acc =
     (case acc of
        (entity_counts, entity_data) \<Rightarrow>
          (let key = entity_key entity
           in (AList.update key ((case map_of entity_counts key of None \<Rightarrow> 0 | Some c \<Rightarrow> c) + 1)
                 entity_counts,
               AList.update key entity entity_data)))"

text \<open>
  \<open>_extract_common_entities\<close>. Both dictionaries receive the same keys, so
  \<open>entity_data[key]\<close> cannot raise \<open>KeyError\<close>.
\<close>

definition extract_common_entities :: "QueryEntry list \<Rightarrow> Entity list" where
  "extract_common_entities history =
     (case fold (\<lambda>query_entry acc.
               fold count_entity (case entities query_entry of None \<Rightarrow> [] | Some es \<Rightarrow> es) acc)
             history ([], []) of
        (entity_counts, entity_data) \<Rightarrow>
          concat (map (\<lambda>(key, count).
                    if count > 1
                    then (case map_of entity_data key of None \<Rightarrow> [] | Some entity \<Rightarrow> [entity])
                    else [])
                  entity_counts))"

text \<open>
  \<open>_extract_time_range_context\<close>: the loop over \<open>reversed(history)\<close>; an empty or missing
  time range is skipped.
\<close>

fun first_time_range :: "QueryEntry list \<Rightarrow> (string \<times> int) list option" where
  "first_time_range [] = None"
| "first_time_range (query_entry # rest) =
     (case (case intent query_entry of None \<Rightarrow> None | Some i \<Rightarrow> time_range i) of
        None \<Rightarrow> first_time_range rest
      | Some tr \<Rightarrow> if tr \<noteq> [] then Some tr else first_time_range rest)"

definition extract_time_range_context :: "QueryEntry list \<Rightarrow> (string \<times> int) list option" where
  "extract_time_range_context history = first_time_range (rev history)"

definition entry_metrics :: "QueryEntry \<Rightarrow> string list" where
  "entry_metrics query_entry =
     (case intent query_entry of
        None \<Rightarrow> []
      | Some i \<Rightarrow> (case metrics i of None \<Rightarrow> [] | Some ms \<Rightarrow> ms))"

definition extract_metric_context :: "QueryEntry list \<Rightarrow> string list" where
  "extract_metric_context history =
     fold (\<lambda>query_entry ms.
             fold (\<lambda>m ms. if m \<in> set ms then ms else ms @ [m]) (entry_metrics query_entry) ms)
          (rev history) []"

text \<open>
  \<open>extract_context_for_query\<close>, given the result of \<open>get_context(session_id)\<close>
  (\<open>None\<close> when nothing is stored or the store fails); the empty dictionary it returns
  without a context is \<open>None\<close>.
\<close>

definition extract_context_for_query :: "SessionContext option \<Rightarrow> string \<Rightarrow> ExtractedContext option" where
  "extract_context_for_query ctx current_query =
     (case ctx of
        None \<Rightarrow> None
      | Some c \<Rightarrow>
          (let history = (case query_history c of None \<Rightarrow> [] | Some h \<Rightarrow> h)
           in Some \<lparr> last_query = (if history \<noteq> [] then Some (last history) else None),
                     recent_entities = extract_common_entities (last_n 3 history),
                     time_range_context = extract_time_range_context (last_n 3 history),
                     metric_context = extract_metric_context (last_n 3 history),
                     query_count = length history \<rparr>))"

text \<open>
  The number of entries of a history in which an entity occurs, for the comparison with
  the specification's "entities appearing in at least 2 of the last 3 entries".
\<close>

definition entries_containing :: "Entity \<Rightarrow> QueryEntry list \<Rightarrow> nat" where
  "entries_containing entity history =
     length (filter (\<lambda>query_entry.
               entity \<in> set (case entities query_entry of None \<Rightarrow> [] | Some es \<Rightarrow> es)) history)"

section \<open>Properties of the circuit breaker\<close>

lemma call_open_early:
  assumes "state b = OPEN" "last_failure_time b = Some t" "clock w < t + recovery_timeout b"
  shows "call clock func b w = (Inl (circuit_open_error b), b, w)"
  using assms by (simp add: call_def should_attempt_reset_def)

lemma call_open_late:
  assumes "state b = OPEN" "last_failure_time b = Some t" "t + recovery_timeout b \<le> clock w"
  shows "call clock func b w =
     (let h = b\<lparr>state := HALF_OPEN, success_count := 0\<rparr>
      in case func w of
           (Inr result, w') \<Rightarrow> (Inr result, on_success h, w')
         | (Inl e, w') \<Rightarrow>
             if expected_exception h e then (Inl e, on_failure (clock w') h, w')
             else (Inl e, h, w'))"
  using assms by (simp add: call_def should_attempt_reset_def Let_def)

lemma on_failure_last_failure_time: "last_failure_time (on_failure t b) = Some t"
  by (simp add: on_failure_def Let_def)

lemma call_all_open_early:
  assumes "state b = OPEN" "last_failure_time b = Some t"
    and "\<forall>(func, w) \<in> set cs. clock w < t + recovery_timeout b"
  shows "call_all clock b cs = (map (\<lambda>(func, w). (Inl (circuit_open_error b), w)) cs, b)"
  using assms
proof (induction cs)
  case Nil
  then show ?case by simp
next
  case (Cons c cs)
  obtain func w where c: "c = (func, w)" by (cases c)
  from Cons.prems c have "clock w < t + recovery_timeout b" by simp
  with Cons.prems have "call clock func b w = (Inl (circuit_open_error b), b, w)"
    by (simp add: call_open_early)
  moreover from Cons have "call_all clock b cs
      = (map (\<lambda>(func, w). (Inl (circuit_open_error b), w)) cs, b)" by simp
  ultimately show ?case using c by simp
qed

text \<open>
  C1. Let the breaker's state become OPEN at time \<open>t\<close>: \<open>_on_failure\<close>, reading the
  clock at \<open>t\<close>, leaves the breaker \<open>b\<close> in state OPEN. Then every call of a series
  made at times in \<open>[t, t + recovery_timeout)\<close> raises the retryable
  DATA_SOURCE_UNAVAILABLE error, leaves the world as it was (the wrapped function, whatever
  it is, has not run) and leaves the breaker as it was; and a call made after them at or
  after \<open>t + recovery_timeout\<close> puts the breaker into HALF_OPEN with a success count of 0
  and runs the wrapped function from there.
\<close>

theorem circuit_open_fails_fast_until_timeout:
  assumes "b = on_failure t b0" and "state b = OPEN"
    and "\<forall>(func, w) \<in> set cs. t \<le> clock w \<and> clock w < t + recovery_timeout b"
    and "t + recovery_timeout b \<le> clock w1"
  shows "call_all clock b cs = (map (\<lambda>(func, w). (Inl (circuit_open_error b), w)) cs, b)
    \<and> is_ChimeraError (circuit_open_error b) \<and> retryable (circuit_open_error b)
    \<and> circuit_open_error b
        = ChimeraError ''DataSourceError''
            (''Circuit breaker '' @ [CHR 0x27] @ name b @ [CHR 0x27] @ '' is OPEN'')
            ''DATA_SOURCE_UNAVAILABLE'' True
    \<and> call clock func1 b w1 =
        (let h = b\<lparr>state := HALF_OPEN, success_count := 0\<rparr>
         in case func1 w1 of
              (Inr result, w') \<Rightarrow> (Inr result, on_success h, w')
            | (Inl e, w') \<Rightarrow>
                if expected_exception h e then (Inl e, on_failure (clock w') h, w')
                else (Inl e, h, w'))"
proof -
  have lft: "last_failure_time b = Some t"
    using assms(1) by (simp add: on_failure_last_failure_time)
  have early: "\<forall>(func, w) \<in> set cs. clock w < t + recovery_timeout b"
    using assms(3) by auto
  have 1: "call_all clock b cs = (map (\<lambda>(func, w). (Inl (circuit_open_error b), w)) cs, b)"
    using assms(2) lft early by (rule call_all_open_early)
  have 2: "is_ChimeraError (circuit_open_error b) \<and> retryable (circuit_open_error b)"
    by (simp add: circuit_open_error_def DataSourceError_def)
  have 3: "circuit_open_error b
        = ChimeraError ''DataSourceError''
            (''Circuit breaker '' @ [CHR 0x27] @ name b @ [CHR 0x27] @ '' is OPEN'')
            ''DATA_SOURCE_UNAVAILABLE'' True"
    by (simp add: circuit_open_error_def DataSourceError_def DATA_SOURCE_UNAVAILABLE_def)
  have 4: "call clock func1 b w1 =
        (let h = b\<lparr>state := HALF_OPEN, success_count := 0\<rparr>
         in case func1 w1 of
              (Inr result, w') \<Rightarrow> (Inr result, on_success h, w')
            | (Inl e, w') \<Rightarrow>
                if expected_exception h e then (Inl e, on_failure (clock w') h, w')
                else (Inl e, h, w'))"
    using assms(2) lft assms(4) by (rule call_open_late)
  from 1 2 3 4 show ?thesis by blast
qed

theorem circuit_open_fails_fast_until_timeout_witness:
  "state (on_failure 100 (CircuitBreaker_init 1 50 (\<lambda>e. True) None)) = OPEN
   \<and> call_all (\<lambda>w. w) (on_failure 100 (CircuitBreaker_init 1 50 (\<lambda>e. True) None))
         [(\<lambda>w. (Inr (), w + 1), 100), (\<lambda>w. (Inl (PyException ''ValueError''), w + 1), 149 :: int)]
       = ([(Inl (circuit_open_error (on_failure 100 (CircuitBreaker_init 1 50 (\<lambda>e. True) None))), 100),
           (Inl (circuit_open_error (on_failure 100 (CircuitBreaker_init 1 50 (\<lambda>e. True) None))), 149)],
          on_failure 100 (CircuitBreaker_init 1 50 (\<lambda>e. True) None))
   \<and> call (\<lambda>w. w) (\<lambda>w. (Inr (), w + 1))
         (on_failure 100 (CircuitBreaker_init 1 50 (\<lambda>e. True) None)) (150 :: int)
       = (Inr (),
          (on_failure 100 (CircuitBreaker_init 1 50 (\<lambda>e. True) None))
            \<lparr>state := HALF_OPEN, success_count := 1\<rparr>,
          151)"
  using circuit_open_fails_fast_until_timeout
    [of "on_failure 100 (CircuitBreaker_init 1 50 (\<lambda>e. True) None)" 100
        "CircuitBreaker_init 1 50 (\<lambda>e. True) None"
        "[(\<lambda>w. (Inr (), w + 1), 100), (\<lambda>w. (Inl (PyException ''ValueError''), w + 1), 149 :: int)]"
        "\<lambda>w. w" 150 "\<lambda>w. (Inr (), w + 1)"]
  by (simp add: on_failure_def on_success_def CircuitBreaker_init_def Let_def)

text \<open>
  C4. The transitions of \<open>_on_success\<close> and \<open>_on_failure\<close>. In CLOSED a success sets the
  failure count to 0 and changes nothing else; a failure at time \<open>now\<close> adds 1 to the
  failure count, records \<open>now\<close> as the last failure time, and opens the breaker when the
  new count has reached the threshold. In HALF_OPEN a failure at \<open>now\<close> opens the
  breaker and records \<open>now\<close>. From the breaker as \<open>call\<close> leaves it on entering
  HALF_OPEN (success count 0), the first success keeps it HALF_OPEN with a success count
  of 1 and the second closes it with a failure count of 0.
\<close>

theorem circuit_breaker_transitions:
  assumes "state c = CLOSED" and "state h = HALF_OPEN"
  shows "on_success c = c\<lparr>failure_count := 0\<rparr>
    \<and> on_failure now c =
        c\<lparr>failure_count := failure_count c + 1, last_failure_time := Some now,
          state := (if failure_count c + 1 \<ge> failure_threshold c then OPEN else CLOSED)\<rparr>
    \<and> on_failure now h =
        h\<lparr>failure_count := failure_count h + 1, last_failure_time := Some now, state := OPEN\<rparr>
    \<and> on_success (b\<lparr>state := HALF_OPEN, success_count := 0\<rparr>)
        = b\<lparr>state := HALF_OPEN, success_count := 1\<rparr>
    \<and> on_success (on_success (b\<lparr>state := HALF_OPEN, success_count := 0\<rparr>))
        = b\<lparr>state := CLOSED, success_count := 2, failure_count := 0\<rparr>"
  using assms by (simp add: on_success_def on_failure_def Let_def)

theorem circuit_breaker_transitions_witness:
  "on_success (CircuitBreaker_init 2 50 (\<lambda>e. True) None)
     = CircuitBreaker_init 2 50 (\<lambda>e. True) None
   \<and> state (on_failure 7 (CircuitBreaker_init 2 50 (\<lambda>e. True) None)) = CLOSED
   \<and> state (on_failure 9 (on_failure 7 (CircuitBreaker_init 2 50 (\<lambda>e. True) None))) = OPEN
   \<and> last_failure_time (on_failure 9 (on_failure 7 (CircuitBreaker_init 2 50 (\<lambda>e. True) None)))
       = Some 9
   \<and> on_failure 80 ((CircuitBreaker_init 2 50 (\<lambda>e. True) None)\<lparr>state := HALF_OPEN\<rparr>)
       = (CircuitBreaker_init 2 50 (\<lambda>e. True) None)
           \<lparr>state := OPEN, failure_count := 1, last_failure_time := Some 80\<rparr>"
  using circuit_breaker_transitions
    [of "CircuitBreaker_init 2 50 (\<lambda>e. True) None"
        "(CircuitBreaker_init 2 50 (\<lambda>e. True) None)\<lparr>state := HALF_OPEN\<rparr>" 80]
    circuit_breaker_transitions
    [of "on_failure 7 (CircuitBreaker_init 2 50 (\<lambda>e. True) None)"
        "(CircuitBreaker_init 2 50 (\<lambda>e. True) None)\<lparr>state := HALF_OPEN\<rparr>" 9]
  by (simp add: CircuitBreaker_init_def on_failure_def on_success_def Let_def)

section \<open>Properties of retry\<close>

lemma retry_loop_finished:
  "\<not> int attempt < max_attempts config \<Longrightarrow>
     retry_loop blocking config sleep rnd func attempt lst w
       = ((case lst of None \<Rightarrow> Inl (PyException ''TypeError'') | Some e \<Rightarrow> Inl e), w, [])"
  by (simp add: retry_loop.simps split: option.splits)

lemma retry_loop_cases:
  assumes "retry_loop blocking config sleep rnd func attempt lst w = (r, w', tr)"
  obtains (finished) "\<not> int attempt < max_attempts config" "tr = []"
  | (single) x where "int attempt < max_attempts config" "tr = [Attempt x]"
      "x = r \<or> (\<exists>e. x = Inl e \<and> (is_ChimeraError e \<longrightarrow> retryable e))"
  | (slept) e w1 tr' where "int attempt < max_attempts config - 1"
      "func w = (Inl e, w1)" "blocking \<longrightarrow> 0 \<le> get_delay config attempt (rnd attempt)"
      "retry_loop blocking config sleep rnd func (Suc attempt) (Some e)
         (sleep (get_delay config attempt (rnd attempt)) w1) = (r, w', tr')"
      "tr = Attempt (Inl e) # Sleep (get_delay config attempt (rnd attempt)) # tr'"
      "is_ChimeraError e \<longrightarrow> retryable e"
proof (cases "int attempt < max_attempts config")
  case False
  with assms have "tr = []" by (simp add: retry_loop_finished)
  with False show ?thesis by (rule finished)
next
  case True
  show ?thesis
  proof (cases "int attempt < max_attempts config - 1")
    case False
    then have fin: "\<not> int (Suc attempt) < max_attempts config" by simp
    have "\<exists>x. tr = [Attempt x] \<and>
        (x = r \<or> (\<exists>e. x = Inl e \<and> (is_ChimeraError e \<longrightarrow> retryable e)))"
      using assms True False
      by (subst (asm) retry_loop.simps)
        (auto simp: retry_loop_finished [OF fin] split: prod.splits sum.splits if_splits)
    with True show ?thesis using single by blast
  next
    case lt: True
    have "(\<exists>x. tr = [Attempt x] \<and>
        (x = r \<or> (\<exists>e. x = Inl e \<and> (is_ChimeraError e \<longrightarrow> retryable e)))) \<or>
      (\<exists>e w1 tr'. func w = (Inl e, w1) \<and> (is_ChimeraError e \<longrightarrow> retryable e) \<and>
         (blocking \<longrightarrow> 0 \<le> get_delay config attempt (rnd attempt)) \<and>
         retry_loop blocking config sleep rnd func (Suc attempt) (Some e)
           (sleep (get_delay config attempt (rnd attempt)) w1) = (r, w', tr') \<and>
         tr = Attempt (Inl e) # Sleep (get_delay config attempt (rnd attempt)) # tr')"
      using assms True lt
      by (subst (asm) retry_loop.simps)
        (auto simp: Let_def split: prod.splits sum.splits if_splits)
    then show ?thesis using single [OF True] slept [OF lt] by blast
  qed
qed





lemma retry_loop_nonretryable_last:
  "retry_loop blocking config sleep rnd func attempt lst w = (r, w', tr) \<Longrightarrow> k < length tr \<Longrightarrow>
     tr ! k = Attempt (Inl e) \<Longrightarrow> is_ChimeraError e \<Longrightarrow> \<not> retryable e \<Longrightarrow>
     Suc k = length tr \<and> r = Inl e"
proof (induction k arbitrary: attempt lst w tr rule: less_induct)
  case (less k)
  from less.prems(1) show ?case
  proof (cases rule: retry_loop_cases)
    case finished
    with less.prems show ?thesis by simp
  next
    case (single x)
    with less.prems show ?thesis by auto
  next
    case (slept e1 w1 tr')
    show ?thesis
    proof (cases k)
      case 0
      with slept less.prems show ?thesis by auto
    next
      case (Suc j)
      show ?thesis
      proof (cases j)
        case 0
        with Suc slept less.prems show ?thesis by simp
      next
        case (Suc m)
        have m: "m < k" using \<open>k = Suc j\<close> Suc by simp
        have "m < length tr'" "tr' ! m = Attempt (Inl e)"
          using less.prems(2,3) slept(5) \<open>k = Suc j\<close> Suc by simp_all
        from less.IH [OF m slept(4) this less.prems(4,5)] slept(5) \<open>k = Suc j\<close> Suc
        show ?thesis by simp
      qed
    qed
  qed
qed

text \<open>
  C2. When the wrapper makes at least one attempt (\<open>max_attempts\<close> is positive) and the
  first invocation of the wrapped function raises a \<open>ChimeraError\<close> whose \<open>retryable\<close>
  flag is false, the run is that single invocation: the same error is raised to the caller,
  the world is as the invocation left it, and nothing was slept. More generally, in any run
  an invocation that raises such an error is the last event of the run and its error is
  the run's result. Both hold of \<open>sync_wrapper\<close> and of whichever wrapper the decorator
  returns.
\<close>

theorem retry_nonretryable_once:
  assumes "0 < max_attempts config" and "func w = (Inl e, w1)"
    and "is_ChimeraError e" and "\<not> retryable e"
  shows "sync_wrapper config sleep rnd func w = (Inl e, w1, [Attempt (Inl e)])
    \<and> (\<forall>func' w0 r w' tr k e'.
          sync_wrapper config sleep rnd func' w0 = (r, w', tr) \<and> k < length tr \<and>
          tr ! k = Attempt (Inl e') \<and> is_ChimeraError e' \<and> \<not> retryable e'
          \<longrightarrow> Suc k = length tr \<and> r = Inl e')
    \<and> decorator config iscoroutinefunction sleep rnd func w = (Inl e, w1, [Attempt (Inl e)])
    \<and> (\<forall>func' w0 r w' tr k e'.
          decorator config iscoroutinefunction sleep rnd func' w0 = (r, w', tr) \<and> k < length tr \<and>
          tr ! k = Attempt (Inl e') \<and> is_ChimeraError e' \<and> \<not> retryable e'
          \<longrightarrow> Suc k = length tr \<and> r = Inl e')"
proof (intro conjI allI impI)
  show "sync_wrapper config sleep rnd func w = (Inl e, w1, [Attempt (Inl e)])"
    using assms by (simp add: sync_wrapper_def retry_loop.simps [of _ _ _ _ _ 0])
  show "decorator config iscoroutinefunction sleep rnd func w = (Inl e, w1, [Attempt (Inl e)])"
    using assms
    by (simp add: decorator_def sync_wrapper_def async_wrapper_def retry_loop.simps [of _ _ _ _ _ 0])
next
  fix func' w0 r w' tr k e'
  assume a: "sync_wrapper config sleep rnd func' w0 = (r, w', tr) \<and> k < length tr \<and>
          tr ! k = Attempt (Inl e') \<and> is_ChimeraError e' \<and> \<not> retryable e'"
  then have "retry_loop True config sleep rnd func' 0 None w0 = (r, w', tr)"
    by (simp add: sync_wrapper_def)
  from retry_loop_nonretryable_last [OF this, of k e'] a
  show "Suc k = length tr" and "r = Inl e'" by simp_all
next
  fix func' w0 r w' tr k e'
  assume a: "decorator config iscoroutinefunction sleep rnd func' w0 = (r, w', tr) \<and> k < length tr \<and>
          tr ! k = Attempt (Inl e') \<and> is_ChimeraError e' \<and> \<not> retryable e'"
  then have "retry_loop (\<not> iscoroutinefunction) config sleep rnd func' 0 None w0 = (r, w', tr)"
    by (simp add: decorator_def sync_wrapper_def async_wrapper_def split: if_splits)
  from retry_loop_nonretryable_last [OF this, of k e'] a
  show "Suc k = length tr" and "r = Inl e'" by simp_all
qed

theorem retry_nonretryable_once_witness:
  "sync_wrapper (RetryConfig_init 5 EXPONENTIAL 1 60 True None) (\<lambda>d w. w) (\<lambda>i. 0)
     (\<lambda>w. (Inl (ChimeraError ''QueryError'' ''bad'' ''INVALID_QUERY'' False) :: exn + unit, Suc w)) 0
   = (Inl (ChimeraError ''QueryError'' ''bad'' ''INVALID_QUERY'' False), 1,
      [Attempt (Inl (ChimeraError ''QueryError'' ''bad'' ''INVALID_QUERY'' False))])"
  using retry_nonretryable_once
    [of "RetryConfig_init 5 EXPONENTIAL 1 60 True None"
        "\<lambda>w. (Inl (ChimeraError ''QueryError'' ''bad'' ''INVALID_QUERY'' False) :: exn + unit, Suc w)"
        0 "ChimeraError ''QueryError'' ''bad'' ''INVALID_QUERY'' False" 1 "\<lambda>d w. w" "\<lambda>i. 0",
        THEN conjunct1]
  by (simp add: RetryConfig_init_def)








section \<open>Properties of the subscriber\<close>

text \<open>
  C3. For every delivery, \<open>_on_message\<close> sends exactly one frame on the channel: the ack
  of the delivery tag when the lookup of the message class, the parsing of the body and the
  handler all succeed, and otherwise the nack of the delivery tag with \<open>requeue=False\<close>.
  A routing key that is absent from the routing-key map is such a failure: it is nacked.
\<close>

theorem on_message_acks_or_nacks_once:
  "fst (on_message message_map ParseFromString handle_message channel method properties body w)
     = channel @ (if handling_succeeds message_map ParseFromString handle_message method properties body w
                  then [Ack (delivery_tag method)]
                  else [Nack (delivery_tag method) False])
   \<and> (message_map (routing_key method) = None \<longrightarrow>
        fst (on_message message_map ParseFromString handle_message channel method properties body w)
          = channel @ [Nack (delivery_tag method) False])"
  by (simp add: on_message_def on_message_try_def handling_succeeds_def get_message_class_def
      deserialize_message_def basic_ack_def basic_nack_def Let_def
      split: option.splits sum.splits prod.splits)

theorem on_message_acks_or_nacks_once_witness:
  "fst (on_message (Map.empty(''query.request'' \<mapsto> ''QueryRequest''))
         (\<lambda>c data. if data = [] then Inl (PyException ''DecodeError'') else Inr data)
         (\<lambda>m p w. (Inr (), Suc w)) [] \<lparr>routing_key = ''query.request'', delivery_tag = 7\<rparr>
         \<lparr>correlation_id = Some ''c1'', app_id = None\<rparr> ''hi'' (0::nat)) = [Ack 7]
   \<and> fst (on_message (Map.empty(''query.request'' \<mapsto> ''QueryRequest''))
         (\<lambda>c data. if data = [] then Inl (PyException ''DecodeError'') else Inr data)
         (\<lambda>m p w. (Inr (), Suc w)) [] \<lparr>routing_key = ''other.key'', delivery_tag = 8\<rparr>
         \<lparr>correlation_id = Some ''c1'', app_id = None\<rparr> ''hi'' (0::nat)) = [Nack 8 False]"
  using on_message_acks_or_nacks_once
    [of "Map.empty(''query.request'' \<mapsto> ''QueryRequest'')"
        "\<lambda>c data. if data = [] then Inl (PyException ''DecodeError'') else Inr data"
        "\<lambda>m p w. (Inr (), Suc w)" "[]" "\<lparr>routing_key = ''query.request'', delivery_tag = 7\<rparr>"
        "\<lparr>correlation_id = Some ''c1'', app_id = None\<rparr>" "''hi''" "0::nat"]
    on_message_acks_or_nacks_once
    [of "Map.empty(''query.request'' \<mapsto> ''QueryRequest'')"
        "\<lambda>c data. if data = [] then Inl (PyException ''DecodeError'') else Inr data"
        "\<lambda>m p w. (Inr (), Suc w)" "[]" "\<lparr>routing_key = ''other.key'', delivery_tag = 8\<rparr>"
        "\<lparr>correlation_id = Some ''c1'', app_id = None\<rparr>" "''hi''" "0::nat"]
  by (simp add: handling_succeeds_def)

section \<open>Properties of correlation tracking\<close>

lemma fold_delete_filter:
  "fold AList.delete ks xs = filter (\<lambda>(k, v). k \<notin> set ks) xs"
proof (induction ks arbitrary: xs)
  case Nil
  then show ?case by simp
next
  case (Cons k ks)
  have "filter (\<lambda>(k', v). k' \<notin> set ks) (AList.delete k xs)
      = filter (\<lambda>(k', v). k' \<notin> set (k # ks)) xs"
    by (induction xs) (auto simp: AList.delete_eq)
  with Cons show ?case by simp
qed

lemma filter_keys_distinct:
  assumes "distinct (map fst xs)"
  shows "filter (\<lambda>(k, v). k \<notin> set (map fst (filter P xs))) xs = filter (\<lambda>kv. \<not> P kv) xs"
proof (rule filter_cong [OF refl])
  fix kv assume kv: "kv \<in> set xs"
  obtain k v where [simp]: "kv = (k, v)" by (cases kv)
  have "k \<in> set (map fst (filter P xs)) \<longleftrightarrow> P (k, v)"
  proof
    assume "k \<in> set (map fst (filter P xs))"
    then obtain v' where v': "(k, v') \<in> set xs" "P (k, v')" by auto
    from assms kv v'(1) have "v' = v" by (auto dest: eq_key_imp_eq_value)
    with v'(2) show "P (k, v)" by simp
  next
    assume "P (k, v)"
    with kv show "k \<in> set (map fst (filter P xs))" by force
  qed
  then show "(case kv of (k, v) \<Rightarrow> k \<notin> set (map fst (filter P xs))) = (\<not> P kv)" by simp
qed

lemma map_of_filter_distinct:
  assumes "distinct (map fst xs)"
  shows "map_of (filter P xs) k =
     (case map_of xs k of None \<Rightarrow> None | Some v \<Rightarrow> if P (k, v) then Some v else None)"
  using assms
proof (induction xs)
  case Nil
  then show ?case by simp
next
  case (Cons x xs)
  obtain k' v' where x: "x = (k', v')" by (cases x)
  from Cons.prems x have notin: "k' \<notin> fst ` set xs" by simp
  then have none: "map_of xs k' = None" by (simp add: map_of_eq_None_iff)
  from Cons show ?case using x none by (auto split: option.splits)
qed

lemma cleanup_filter:
  assumes "distinct (map fst cmap)"
  shows "cleanup_old_correlations get_timestamp a cmap w
    = (int (length (filter (\<lambda>(cid, data). entry_timestamp data < get_timestamp w - a * 1000) cmap)),
       filter (\<lambda>(cid, data). \<not> entry_timestamp data < get_timestamp w - a * 1000) cmap)"
  using filter_keys_distinct [OF assms, of "\<lambda>(cid, data). entry_timestamp data < get_timestamp w - a * 1000"]
  by (simp add: cleanup_old_correlations_def Let_def fold_delete_filter case_prod_unfold)






text \<open>
  C6. On a correlation map (a dictionary: its keys are distinct),
  \<open>cleanup_old_correlations a\<close> at the time \<open>now\<close> keeps, in their order, exactly the
  entries whose timestamp is not below \<open>now - a * 1000\<close> milliseconds and removes the
  others (an entry without a timestamp counts as of time 0); it returns the number of
  removed entries; and a second call at the same \<open>now\<close> removes nothing and returns 0.
\<close>

theorem cleanup_old_correlations_exact:
  fixes cmap :: "'v correlation_map"
  assumes "distinct (map fst cmap)"
    and "cleanup_old_correlations get_timestamp a cmap w = (n, cmap1)"
  shows "cmap1 = filter (\<lambda>(cid, data). \<not> entry_timestamp data < get_timestamp w - a * 1000) cmap
    \<and> (\<forall>cid. get_correlation_context cid cmap1 =
          (case get_correlation_context cid cmap of
             None \<Rightarrow> None
           | Some data \<Rightarrow> if entry_timestamp data < get_timestamp w - a * 1000 then None else Some data))
    \<and> n = int (length (filter (\<lambda>(cid, data). entry_timestamp data < get_timestamp w - a * 1000) cmap))
    \<and> n = int (length cmap) - int (length cmap1)
    \<and> distinct (map fst cmap1)
    \<and> cleanup_old_correlations get_timestamp a cmap1 w = (0, cmap1)"
proof -
  let ?old = "\<lambda>(cid, data). entry_timestamp (data :: 'v CorrelationEntry) < get_timestamp w - a * 1000"
  let ?keep = "\<lambda>(cid, data). \<not> entry_timestamp (data :: 'v CorrelationEntry) < get_timestamp w - a * 1000"
  from cleanup_filter [OF assms(1), of get_timestamp a w] assms(2)
  have n: "n = int (length (filter ?old cmap))" and c1: "cmap1 = filter ?keep cmap"
    by simp_all
  have d1: "distinct (map fst cmap1)"
    using assms(1) c1 by (simp add: distinct_map_filter)
  have look: "\<And>cid. map_of cmap1 cid =
      (case map_of cmap cid of None \<Rightarrow> None
       | Some data \<Rightarrow> if entry_timestamp data < get_timestamp w - a * 1000 then None else Some data)"
    unfolding c1 using assms(1) by (simp add: map_of_filter_distinct split: option.splits)
  have len: "length (filter ?old cmap) + length cmap1 = length cmap"
    unfolding c1 using sum_length_filter_compl [of ?old cmap] by (simp add: case_prod_unfold)
  have "filter ?old cmap1 = []" "filter ?keep cmap1 = cmap1"
    unfolding c1 by (auto simp: filter_empty_conv)
  with cleanup_filter [OF d1, of get_timestamp a w]
  have idem: "cleanup_old_correlations get_timestamp a cmap1 w = (0, cmap1)" by simp
  from n c1 d1 look len idem show ?thesis
    by (simp add: get_correlation_context_def)
qed


theorem cleanup_old_correlations_exact_witness:
  "cleanup_old_correlations (\<lambda>w. w) 3600
     [(''old-1'', \<lparr>request_routing_key = ''a'', reply_routing_key = ''b'',
                  context_data = [(''k'', ''v'')], timestamp = Some (10000000 - 7200000)\<rparr>),
      (''recent-1'', \<lparr>request_routing_key = ''a'', reply_routing_key = ''b'',
                  context_data = [(''k'', ''v'')], timestamp = Some (10000000 - 1800000)\<rparr>)]
     10000000
   = (1, [(''recent-1'', \<lparr>request_routing_key = ''a'', reply_routing_key = ''b'',
                  context_data = [(''k'', ''v'')], timestamp = Some (10000000 - 1800000)\<rparr>)])
   \<and> cleanup_old_correlations (\<lambda>w. w) 3600
     [(''recent-1'', \<lparr>request_routing_key = ''a'', reply_routing_key = ''b'',
                  context_data = [(''k'', ''v'')], timestamp = Some (10000000 - 1800000)\<rparr>)]
     10000000
   = (0, [(''recent-1'', \<lparr>request_routing_key = ''a'', reply_routing_key = ''b'',
                  context_data = [(''k'', ''v'')], timestamp = Some (10000000 - 1800000)\<rparr>)])"
  using cleanup_old_correlations_exact
    [of "[(''old-1'', \<lparr>request_routing_key = ''a'', reply_routing_key = ''b'',
                  context_data = [(''k'', ''v'')], timestamp = Some (10000000 - 7200000)\<rparr>),
      (''recent-1'', \<lparr>request_routing_key = ''a'', reply_routing_key = ''b'',
                  context_data = [(''k'', ''v'')], timestamp = Some (10000000 - 1800000)\<rparr>)]"
        "\<lambda>w. w" 3600 10000000 1
        "[(''recent-1'', \<lparr>request_routing_key = ''a'', reply_routing_key = ''b'',
                  context_data = [(''k'', ''v'')], timestamp = Some (10000000 - 1800000)\<rparr>)]"]
  by (simp add: cleanup_old_correlations_def entry_timestamp_def AList.delete_eq)

section \<open>Properties of the alert engine\<close>

lemma calculate_severity_bands:
  "(threshold cond > 0 \<longrightarrow>
      calculate_severity v cond = spec_severity v (threshold cond)
      \<and> calculate_severity v cond =
          (if \<bar>v - threshold cond\<bar> / threshold cond > 0.5 then ''critical''
           else if \<bar>v - threshold cond\<bar> / threshold cond > 0.2 then ''high''
           else if \<bar>v - threshold cond\<bar> / threshold cond > 0.1 then ''medium''
           else ''low''))
   \<and> (threshold cond \<le> 0 \<longrightarrow> calculate_severity v cond = ''low'')"
  by (simp add: calculate_severity_def spec_severity_def relative_deviation_def Let_def)

lemma evaluate_rules_fired:
  "evaluate_rules m v ts now rs alerts eng = (Inr out, eng1) \<Longrightarrow> a \<in> set out \<Longrightarrow>
     a \<in> set alerts \<or>
     (\<exists>rule. (rule_id a, rule) \<in> set rs \<and> enabled rule \<and> metric (condition rule) = m \<and>
        check_condition v (operator (condition rule)) (threshold (condition rule)) \<and>
        a = make_alert (rule_id a) rule m v ts now)"
proof (induction m v ts now rs alerts eng rule: evaluate_rules.induct)
  case (1 m v ts current_time alerts eng)
  then show ?case by simp
next
  case (2 m v ts current_time rid rule rest alerts eng)
  show ?case
  proof (cases "enabled rule \<and> metric (condition rule) = m \<and>
      check_condition v (operator (condition rule)) (threshold (condition rule)) \<and>
      \<not> (case map_of (last_alert_time eng) rid of None \<Rightarrow> False
          | Some last_alert \<Rightarrow> current_time - last_alert < cooldown_seconds (condition rule) * 1000000)")
    case False
    with "2.prems" have "evaluate_rules m v ts current_time rest alerts eng = (Inr out, eng1)"
      by (auto split: if_splits)
    with "2.IH" "2.prems"(2) False show ?thesis by (auto split: if_splits)
  next
    case True
    with "2.prems"(1) obtain history where
      h: "map_of (alert_history eng) rid = Some history"
      by (cases "map_of (alert_history eng) rid") (auto simp: Let_def)
    let ?alert = "make_alert rid rule m v ts current_time"
    let ?eng = "eng\<lparr> alert_history := AList.update rid (history @ [?alert]) (alert_history eng),
                       last_alert_time := AList.update rid current_time (last_alert_time eng) \<rparr>"
    from "2.prems"(1) True h
    have run: "evaluate_rules m v ts current_time rest (alerts @ [?alert]) ?eng = (Inr out, eng1)"
      by (simp add: Let_def)
    from "2.IH"(4) [OF _ _ _ _ refl h run "2.prems"(2)] True
    have "a \<in> set (alerts @ [?alert]) \<or>
       (\<exists>rule. (rule_id a, rule) \<in> set rest \<and> enabled rule \<and> metric (condition rule) = m \<and>
        check_condition v (operator (condition rule)) (threshold (condition rule)) \<and>
        a = make_alert (rule_id a) rule m v ts current_time)"
      by simp
    then show ?thesis using True by (auto simp: make_alert_def)
  qed
qed


lemma evaluate_rules_untouched:
  assumes "\<forall>rule. (rid, rule) \<in> set rs \<longrightarrow>
      \<not> check_condition v (operator (condition rule)) (threshold (condition rule))"
  shows "map_of (alert_history (snd (evaluate_rules m v ts now rs alerts eng))) rid
           = map_of (alert_history eng) rid
       \<and> map_of (last_alert_time (snd (evaluate_rules m v ts now rs alerts eng))) rid
           = map_of (last_alert_time eng) rid"
  using assms
proof (induction m v ts now rs alerts eng rule: evaluate_rules.induct)
  case (1 m v ts current_time alerts eng)
  then show ?case by simp
next
  case (2 m v ts current_time rid' rule rest alerts eng)
  from "2.prems" have rest: "\<forall>rule. (rid, rule) \<in> set rest \<longrightarrow>
      \<not> check_condition v (operator (condition rule)) (threshold (condition rule))" by simp
  show ?case
  proof (cases "enabled rule \<and> metric (condition rule) = m \<and>
      check_condition v (operator (condition rule)) (threshold (condition rule)) \<and>
      \<not> (case map_of (last_alert_time eng) rid' of None \<Rightarrow> False
          | Some last_alert \<Rightarrow> current_time - last_alert < cooldown_seconds (condition rule) * 1000000)")
    case False
    with "2.IH"(1,2,3,5) rest show ?thesis by (auto split: if_splits)
  next
    case True
    with "2.prems" have neq: "rid' \<noteq> rid" by auto
    show ?thesis
    proof (cases "map_of (alert_history eng) rid'")
      case None
      with True show ?thesis by (simp add: Let_def)
    next
      case (Some history)
      let ?alert = "make_alert rid' rule m v ts current_time"
      let ?eng = "eng\<lparr> alert_history := AList.update rid' (history @ [?alert]) (alert_history eng),
                       last_alert_time := AList.update rid' current_time (last_alert_time eng) \<rparr>"
      from "2.IH"(4) [OF _ _ _ _ refl Some rest] True
      have "map_of (alert_history (snd (evaluate_rules m v ts current_time rest (alerts @ [?alert]) ?eng))) rid
           = map_of (alert_history ?eng) rid
       \<and> map_of (last_alert_time (snd (evaluate_rules m v ts current_time rest (alerts @ [?alert]) ?eng))) rid
           = map_of (last_alert_time ?eng) rid"
        by simp
      with True Some neq show ?thesis by (simp add: Let_def update_conv')
    qed
  qed
qed

lemma check_condition_unknown:
  "op \<notin> {''>'', ''<'', ''>='', ''<='', ''==''} \<Longrightarrow> \<not> check_condition v op thr"
  by (simp add: check_condition_def)

text \<open>
  C9, as amended. Every alert that \<open>evaluate\<close> returns was fired by an enabled rule of the
  engine on the evaluated metric whose condition is met, and its severity is
  \<open>calculate_severity\<close> of the value and that rule's condition. For a rule whose threshold
  is positive this is the band of the relative deviation \<open>|value - threshold| / threshold\<close>:
  above 0.5 critical, above 0.2 high, above 0.1 medium, otherwise low. For a rule whose
  threshold is zero or negative the severity is always low.
\<close>

theorem fired_alert_severity:
  assumes "evaluate m v ts now eng = (Inr alerts, eng1)" and "a \<in> set alerts"
  shows "\<exists>rule. (rule_id a, rule) \<in> set (rules eng) \<and> enabled rule \<and> metric (condition rule) = m
      \<and> check_condition v (operator (condition rule)) (threshold (condition rule))
      \<and> severity a = calculate_severity v (condition rule)
      \<and> (threshold (condition rule) > 0 \<longrightarrow>
            severity a = spec_severity v (threshold (condition rule))
          \<and> severity a =
              (if \<bar>v - threshold (condition rule)\<bar> / threshold (condition rule) > 0.5 then ''critical''
               else if \<bar>v - threshold (condition rule)\<bar> / threshold (condition rule) > 0.2 then ''high''
               else if \<bar>v - threshold (condition rule)\<bar> / threshold (condition rule) > 0.1 then ''medium''
               else ''low''))
      \<and> (threshold (condition rule) \<le> 0 \<longrightarrow> severity a = ''low'')"
proof -
  from assms have "evaluate_rules m v ts now (rules eng) [] eng = (Inr alerts, eng1)"
    by (simp add: evaluate_def)
  from evaluate_rules_fired [OF this assms(2)]
  obtain rule where r: "(rule_id a, rule) \<in> set (rules eng)" "enabled rule"
      "metric (condition rule) = m"
      "check_condition v (operator (condition rule)) (threshold (condition rule))"
      "a = make_alert (rule_id a) rule m v ts now"
    by auto
  from r(5) have "severity a = severity (make_alert (rule_id a) rule m v ts now)" by simp
  then have sev: "severity a = calculate_severity v (condition rule)"
    by (simp add: make_alert_def)
  note bands = calculate_severity_bands [of "condition rule" v, folded sev]
  from r(1-4) sev bands show ?thesis by blast
qed

theorem fired_alert_severity_witness:
  "evaluate ''price'' 160 None 5000000
     (add_rule \<lparr>rule_ident = ''r1'', rule_name = ''high price'',
         condition = \<lparr>metric = ''price'', operator = ''>'', threshold = 100,
                      duration_seconds = 0, cooldown_seconds = 300\<rparr>,
         notification_channels = [], enabled = True\<rparr> AlertEngine_init)
   = (Inr [\<lparr>rule_id = ''r1'', alert_timestamp = 5000, alert_metric = ''price'',
            current_value = 160, alert_threshold = 100, severity = ''critical'',
            alert_context = [(''rule_name'', ''high price'')],
            suggested_actions = [''Review price data for anomalies'',
                                 ''Check related metrics for correlation'']\<rparr>],
      \<lparr>rules = [(''r1'', \<lparr>rule_ident = ''r1'', rule_name = ''high price'',
         condition = \<lparr>metric = ''price'', operator = ''>'', threshold = 100,
                      duration_seconds = 0, cooldown_seconds = 300\<rparr>,
         notification_channels = [], enabled = True\<rparr>)],
       alert_history = [(''r1'', [\<lparr>rule_id = ''r1'', alert_timestamp = 5000, alert_metric = ''price'',
            current_value = 160, alert_threshold = 100, severity = ''critical'',
            alert_context = [(''rule_name'', ''high price'')],
            suggested_actions = [''Review price data for anomalies'',
                                 ''Check related metrics for correlation'']\<rparr>])],
       last_alert_time = [(''r1'', 5000000)]\<rparr>)
   \<and> spec_severity 160 100 = ''critical''"
  using fired_alert_severity
    [of "''price''" 160 None 5000000
       "add_rule \<lparr>rule_ident = ''r1'', rule_name = ''high price'',
         condition = \<lparr>metric = ''price'', operator = ''>'', threshold = 100,
                      duration_seconds = 0, cooldown_seconds = 300\<rparr>,
         notification_channels = [], enabled = True\<rparr> AlertEngine_init"
       "[\<lparr>rule_id = ''r1'', alert_timestamp = 5000, alert_metric = ''price'',
            current_value = 160, alert_threshold = 100, severity = ''critical'',
            alert_context = [(''rule_name'', ''high price'')],
            suggested_actions = [''Review price data for anomalies'',
                                 ''Check related metrics for correlation'']\<rparr>]"
       "\<lparr>rules = [(''r1'', \<lparr>rule_ident = ''r1'', rule_name = ''high price'',
         condition = \<lparr>metric = ''price'', operator = ''>'', threshold = 100,
                      duration_seconds = 0, cooldown_seconds = 300\<rparr>,
         notification_channels = [], enabled = True\<rparr>)],
       alert_history = [(''r1'', [\<lparr>rule_id = ''r1'', alert_timestamp = 5000, alert_metric = ''price'',
            current_value = 160, alert_threshold = 100, severity = ''critical'',
            alert_context = [(''rule_name'', ''high price'')],
            suggested_actions = [''Review price data for anomalies'',
                                 ''Check related metrics for correlation'']\<rparr>])],
       last_alert_time = [(''r1'', 5000000)]\<rparr>"
       "\<lparr>rule_id = ''r1'', alert_timestamp = 5000, alert_metric = ''price'',
            current_value = 160, alert_threshold = 100, severity = ''critical'',
            alert_context = [(''rule_name'', ''high price'')],
            suggested_actions = [''Review price data for anomalies'',
                                 ''Check related metrics for correlation'']\<rparr>"]
  by (simp add: evaluate_def add_rule_def AlertEngine_init_def check_condition_def make_alert_def
      calculate_severity_def suggest_actions_def spec_severity_def relative_deviation_def Let_def)

text \<open>
  C9 as stated fails for a negative threshold: the rule \<open>price_change < -10\<close> fires on the
  value \<open>-100\<close>, whose relative deviation from the threshold is 9 (900 percent), and the
  alert's severity is low, not critical.
\<close>

theorem severity_negative_threshold_counterexample:
  "fst (evaluate ''price_change'' (- 100) None 5000000
     (add_rule \<lparr>rule_ident = ''r1'', rule_name = ''drop'',
         condition = \<lparr>metric = ''price_change'', operator = ''<'', threshold = - 10,
                      duration_seconds = 0, cooldown_seconds = 300\<rparr>,
         notification_channels = [], enabled = True\<rparr> AlertEngine_init))
   = Inr [\<lparr>rule_id = ''r1'', alert_timestamp = 5000, alert_metric = ''price_change'',
            current_value = - 100, alert_threshold = - 10, severity = ''low'',
            alert_context = [(''rule_name'', ''drop'')],
            suggested_actions = [''Review price_change data for anomalies'',
                                 ''Check related metrics for correlation'']\<rparr>]
   \<and> relative_deviation (- 100) (- 10) = 9
   \<and> spec_severity (- 100) (- 10) = ''critical''"
  by (simp add: evaluate_def add_rule_def AlertEngine_init_def check_condition_def make_alert_def
      calculate_severity_def suggest_actions_def spec_severity_def relative_deviation_def Let_def)

text \<open>
  C10. The operator \<open>==\<close> is met exactly when the absolute difference of value and
  threshold is below 0.01; an operator other than \<open>>\<close>, \<open><\<close>, \<open>>=\<close>, \<open><=\<close>, \<open>==\<close> is
  never met. So when the rule stored under an identifier has such an operator, no run of
  \<open>evaluate\<close>, whatever its outcome, returns an alert of that rule or changes that rule's
  alert history or last alert time.
\<close>

theorem equality_is_approximate_and_unknown_operator_never_fires:
  assumes "evaluate m v ts now eng = (r, eng1)"
    and "\<forall>rule. (rid, rule) \<in> set (rules eng) \<longrightarrow>
           operator (condition rule) \<notin> {''>'', ''<'', ''>='', ''<='', ''==''}"
  shows "(check_condition v2 ''=='' thr \<longleftrightarrow> \<bar>v2 - thr\<bar> < 0.01)
    \<and> (op \<notin> {''>'', ''<'', ''>='', ''<='', ''==''} \<longrightarrow> \<not> check_condition v2 op thr)
    \<and> (\<forall>alerts. r = Inr alerts \<longrightarrow> (\<forall>a \<in> set alerts. rule_id a \<noteq> rid))
    \<and> map_of (alert_history eng1) rid = map_of (alert_history eng) rid
    \<and> map_of (last_alert_time eng1) rid = map_of (last_alert_time eng) rid"
proof -
  have eq: "check_condition v2 ''=='' thr \<longleftrightarrow> \<bar>v2 - thr\<bar> < 0.01"
    by (simp add: check_condition_def)
  have unk: "op \<notin> {''>'', ''<'', ''>='', ''<='', ''==''} \<longrightarrow> \<not> check_condition v2 op thr"
    using check_condition_unknown by blast
  have never: "\<forall>rule. (rid, rule) \<in> set (rules eng) \<longrightarrow>
      \<not> check_condition v (operator (condition rule)) (threshold (condition rule))"
    using assms(2) check_condition_unknown by blast
  have run: "evaluate_rules m v ts now (rules eng) [] eng = (r, eng1)"
    using assms(1) by (simp add: evaluate_def)
  have fired: "\<forall>alerts. r = Inr alerts \<longrightarrow> (\<forall>a \<in> set alerts. rule_id a \<noteq> rid)"
  proof (intro allI impI ballI)
    fix alerts a assume "r = Inr alerts" "a \<in> set alerts"
    with run evaluate_rules_fired [of m v ts now "rules eng" "[]" eng alerts eng1 a]
    obtain rule where "(rule_id a, rule) \<in> set (rules eng)"
      "check_condition v (operator (condition rule)) (threshold (condition rule))"
      by auto
    with never show "rule_id a \<noteq> rid" by auto
  qed
  from evaluate_rules_untouched [OF never, of m ts now "[]" eng] run
  have "map_of (alert_history eng1) rid = map_of (alert_history eng) rid"
    "map_of (last_alert_time eng1) rid = map_of (last_alert_time eng) rid"
    by simp_all
  with eq unk fired show ?thesis by blast
qed

theorem equality_is_approximate_and_unknown_operator_never_fires_witness:
  "evaluate ''price'' 160 None 5000000
     (add_rule \<lparr>rule_ident = ''r1'', rule_name = ''odd'',
         condition = \<lparr>metric = ''price'', operator = ''!='', threshold = 100,
                      duration_seconds = 0, cooldown_seconds = 300\<rparr>,
         notification_channels = [], enabled = True\<rparr> AlertEngine_init)
   = (Inr [],
      add_rule \<lparr>rule_ident = ''r1'', rule_name = ''odd'',
         condition = \<lparr>metric = ''price'', operator = ''!='', threshold = 100,
                      duration_seconds = 0, cooldown_seconds = 300\<rparr>,
         notification_channels = [], enabled = True\<rparr> AlertEngine_init)
   \<and> check_condition 100.005 ''=='' 100 \<and> \<not> check_condition 100.01 ''=='' 100"
  using equality_is_approximate_and_unknown_operator_never_fires
    [of "''price''" 160 None 5000000
       "add_rule \<lparr>rule_ident = ''r1'', rule_name = ''odd'',
         condition = \<lparr>metric = ''price'', operator = ''!='', threshold = 100,
                      duration_seconds = 0, cooldown_seconds = 300\<rparr>,
         notification_channels = [], enabled = True\<rparr> AlertEngine_init"
       "Inr []"
       "add_rule \<lparr>rule_ident = ''r1'', rule_name = ''odd'',
         condition = \<lparr>metric = ''price'', operator = ''!='', threshold = 100,
                      duration_seconds = 0, cooldown_seconds = 300\<rparr>,
         notification_channels = [], enabled = True\<rparr> AlertEngine_init"
       "''r1''" "100.005" 100 "''!=''"]
  by (simp add: evaluate_def add_rule_def AlertEngine_init_def check_condition_def)

section \<open>Properties of the session context\<close>

text \<open>
  What \<open>extract_context_for_query\<close> returns besides the recent entities, for a stored
  history that is not empty: the last entry, the first non-empty time range met from the
  end of the last three entries, the metrics of the last three entries without
  repetition, and the length of the history.
\<close>

lemma dedup_append:
  "distinct ms \<Longrightarrow>
     distinct (fold (\<lambda>m ms. if m \<in> set ms then ms else ms @ [m]) xs ms)
     \<and> set (fold (\<lambda>m ms. if m \<in> set ms then ms else ms @ [m]) xs ms) = set ms \<union> set xs"
  by (induction xs arbitrary: ms) auto

lemma dedup_entries:
  "distinct ms \<Longrightarrow>
     distinct (fold (\<lambda>query_entry ms.
             fold (\<lambda>m ms. if m \<in> set ms then ms else ms @ [m]) (entry_metrics query_entry) ms) qs ms)
     \<and> set (fold (\<lambda>query_entry ms.
             fold (\<lambda>m ms. if m \<in> set ms then ms else ms @ [m]) (entry_metrics query_entry) ms) qs ms)
         = set ms \<union> (\<Union>q \<in> set qs. set (entry_metrics q))"
proof (induction qs arbitrary: ms)
  case Nil
  then show ?case by simp
next
  case (Cons q qs)
  from dedup_append [OF Cons.prems, of "entry_metrics q"]
  have d: "distinct (fold (\<lambda>m ms. if m \<in> set ms then ms else ms @ [m]) (entry_metrics q) ms)"
    and s: "set (fold (\<lambda>m ms. if m \<in> set ms then ms else ms @ [m]) (entry_metrics q) ms)
        = set ms \<union> set (entry_metrics q)" by simp_all
  from Cons.IH [OF d] s show ?case by auto
qed

lemma extract_metric_context_dedup:
  "distinct (extract_metric_context history)
   \<and> set (extract_metric_context history) = (\<Union>q \<in> set history. set (entry_metrics q))"
  using dedup_entries [of "[]" "rev history"] by (simp add: extract_metric_context_def)

lemma extract_context_other_parts:
  assumes "query_history c = Some history" and "history \<noteq> []"
  shows "\<exists>x. extract_context_for_query (Some c) current_query = Some x
      \<and> last_query x = Some (last history)
      \<and> time_range_context x = first_time_range (rev (last_n 3 history))
      \<and> distinct (metric_context x)
      \<and> set (metric_context x) = (\<Union>q \<in> set (last_n 3 history). set (entry_metrics q))
      \<and> query_count x = length history"
  using assms extract_metric_context_dedup [of "last_n 3 history"]
  by (simp add: extract_context_for_query_def extract_time_range_context_def)

text \<open>
  C8, at an input where the code departs from it. The stored history has one entry, for a
  query that names the same date twice, so the entity recognizer has listed the entity
  \<open>DATE:2024-01-01\<close> twice in that entry. \<open>_extract_common_entities\<close> counts
  occurrences, not entries: the entity is returned as a recent entity although it occurs
  in one entry only, not in two of the last three.
\<close>

theorem extract_common_entities_counts_occurrences:
  "extract_context_for_query
     (Some \<lparr>session_id = ''s1'', created_at = ''2024-01-01T00:00:00'',
            query_history = Some
              [\<lparr>query = ''price from 2024-01-01 to 2024-01-01'',
                query_timestamp = ''2024-01-01T00:00:01'',
                intent = Some \<lparr>time_range = None, metrics = Some [''price'']\<rparr>,
                entities = Some
                  [\<lparr>entity_type = Some ''DATE'', entity_value = Some ''2024-01-01'',
                    entity_rest = [(''confidence'', ''0.85'')]\<rparr>,
                   \<lparr>entity_type = Some ''DATE'', entity_value = Some ''2024-01-01'',
                    entity_rest = [(''confidence'', ''0.85'')]\<rparr>]\<rparr>]\<rparr>)
     ''and the volume?''
   = Some \<lparr>last_query = Some
              \<lparr>query = ''price from 2024-01-01 to 2024-01-01'',
                query_timestamp = ''2024-01-01T00:00:01'',
                intent = Some \<lparr>time_range = None, metrics = Some [''price'']\<rparr>,
                entities = Some
                  [\<lparr>entity_type = Some ''DATE'', entity_value = Some ''2024-01-01'',
                    entity_rest = [(''confidence'', ''0.85'')]\<rparr>,
                   \<lparr>entity_type = Some ''DATE'', entity_value = Some ''2024-01-01'',
                    entity_rest = [(''confidence'', ''0.85'')]\<rparr>]\<rparr>,
           recent_entities =
             [\<lparr>entity_type = Some ''DATE'', entity_value = Some ''2024-01-01'',
                    entity_rest = [(''confidence'', ''0.85'')]\<rparr>],
           time_range_context = None,
           metric_context = [''price''],
           query_count = 1\<rparr>
   \<and> entries_containing \<lparr>entity_type = Some ''DATE'', entity_value = Some ''2024-01-01'',
                    entity_rest = [(''confidence'', ''0.85'')]\<rparr>
       (last_n 3
          [\<lparr>query = ''price from 2024-01-01 to 2024-01-01'',
            query_timestamp = ''2024-01-01T00:00:01'',
            intent = Some \<lparr>time_range = None, metrics = Some [''price'']\<rparr>,
            entities = Some
              [\<lparr>entity_type = Some ''DATE'', entity_value = Some ''2024-01-01'',
                    entity_rest = [(''confidence'', ''0.85'')]\<rparr>,
               \<lparr>entity_type = Some ''DATE'', entity_value = Some ''2024-01-01'',
                    entity_rest = [(''confidence'', ''0.85'')]\<rparr>]\<rparr>])
     = 1"
  by (simp add: extract_context_for_query_def extract_common_entities_def count_entity_def
      entity_key_def py_str_def last_n_def extract_time_range_context_def
      extract_metric_context_def entry_metrics_def entries_containing_def Let_def)

end
